theory Spec2Isabelle
  imports Complex_Main "HOL-Library.Char_ord" "HOL-Library.List_Lexorder"
begin

section \<open>Python strings, integers and exceptions\<close>

text \<open>
  The program is a Python script. Its strings are modelled as \<^typ>\<open>string\<close> restricted to
  ASCII: every character test below (whitespace, digit, case) is the one Python applies to
  code points below 128. Python integers are unbounded and modelled as \<^typ>\<open>int\<close>.
  \<open>int\<close> of a text applies CPython's limit on the number of digits, at its default of
  4300. \<open>str\<close> of an integer is modelled without that limit: where the script renders an
  integer it is one that \<open>int\<close> returned, a CPU count or a count of issues. Every \<open>raise\<close>
  is a value: a function that can raise returns \<open>exn + 'a\<close>, with \<open>Inl\<close> the exception.
  Logging is not modelled.
\<close>

datatype exn =
    ValueError
  | UnicodeDecodeError
  | AttributeError
  | TypeError
  | IndexError
  | ZeroDivisionError
  | PermissionError
  | FileNotFoundError
  | OSError
  | ConfigparserError
  | KeyboardInterrupt

text \<open>The part of Python's exception hierarchy that the handlers of the script test.\<close>

definition is_ValueError :: "exn \<Rightarrow> bool" where
  "is_ValueError e = (e = ValueError \<or> e = UnicodeDecodeError)"


definition is_Exception :: "exn \<Rightarrow> bool" where
  "is_Exception e = (e \<noteq> KeyboardInterrupt)"

text \<open>\<open>str.isspace\<close> on ASCII: tab, line feed, vertical tab, form feed, carriage return,
  the four separators \<open>0x1c\<close> to \<open>0x1f\<close>, and space. It is the whitespace of \<open>strip()\<close>,
  of \<open>split()\<close> and of \<open>\s\<close> in a regular expression. \<open>int()\<close> skips a smaller set, the
  six characters of C's \<open>isspace\<close>.\<close>

definition is_space :: "char \<Rightarrow> bool" where
  "is_space c = (c = CHR 0x09 \<or> c = CHR 0x0A \<or> c = CHR 0x0B \<or> c = CHR 0x0C \<or> c = CHR 0x0D
     \<or> c = CHR 0x1C \<or> c = CHR 0x1D \<or> c = CHR 0x1E \<or> c = CHR 0x1F \<or> c = CHR 0x20)"

definition is_c_space :: "char \<Rightarrow> bool" where
  "is_c_space c = (c = CHR 0x09 \<or> c = CHR 0x0A \<or> c = CHR 0x0B \<or> c = CHR 0x0C \<or> c = CHR 0x0D
     \<or> c = CHR 0x20)"

definition is_digit :: "char \<Rightarrow> bool" where
  "is_digit c = (48 \<le> (of_char c :: nat) \<and> (of_char c :: nat) \<le> 57)"

definition digit_val :: "char \<Rightarrow> nat" where
  "digit_val c = of_char c - 48"

definition digit_char :: "nat \<Rightarrow> char" where
  "digit_char d = char_of (48 + d)"

definition lower_char :: "char \<Rightarrow> char" where
  "lower_char c = (if 65 \<le> (of_char c :: nat) \<and> (of_char c :: nat) \<le> 90
                   then char_of ((of_char c :: nat) + 32) else c)"

definition upper_char :: "char \<Rightarrow> char" where
  "upper_char c = (if 97 \<le> (of_char c :: nat) \<and> (of_char c :: nat) \<le> 122
                   then char_of ((of_char c :: nat) - 32) else c)"

definition lower :: "string \<Rightarrow> string" where
  "lower s = map lower_char s"

definition upper :: "string \<Rightarrow> string" where
  "upper s = map upper_char s"

text \<open>\<open>s.lstrip(chars)\<close>, \<open>s.rstrip(chars)\<close> and \<open>s.strip()\<close>.\<close>

definition lstrip :: "string \<Rightarrow> string \<Rightarrow> string" where
  "lstrip chars s = dropWhile (\<lambda>c. c \<in> set chars) s"


definition strip_with :: "(char \<Rightarrow> bool) \<Rightarrow> string \<Rightarrow> string" where
  "strip_with p s = rev (dropWhile p (rev (dropWhile p s)))"

definition strip :: "string \<Rightarrow> string" where
  "strip s = strip_with is_space s"



text \<open>\<open>s.split(sep)\<close> for a separator of one character: always at least one piece.\<close>

fun split_on :: "char \<Rightarrow> string \<Rightarrow> string list" where
  "split_on sep [] = [[]]"
| "split_on sep (c # cs) =
     (if c = sep then [] # split_on sep cs
      else (case split_on sep cs of
              p # ps \<Rightarrow> (c # p) # ps
            | [] \<Rightarrow> [[c]]))"

text \<open>\<open>s.split()\<close>: pieces between runs of whitespace, never an empty piece. The
  accumulator \<open>cur\<close> holds the piece being read, reversed.\<close>

fun split_ws_acc :: "string \<Rightarrow> string \<Rightarrow> string list" where
  "split_ws_acc cur [] = (if cur = [] then [] else [rev cur])"
| "split_ws_acc cur (c # cs) =
     (if is_space c then (if cur = [] then split_ws_acc [] cs else rev cur # split_ws_acc [] cs)
      else split_ws_acc (c # cur) cs)"

definition split_ws :: "string \<Rightarrow> string list" where
  "split_ws s = split_ws_acc [] s"


text \<open>
  \<open>int(s)\<close> for a string: surrounding C whitespace is dropped, one sign is allowed, then at
  least one decimal digit, with single underscores allowed between digits. Anything else
  raises \<open>ValueError\<close>. In \<open>int_digits\<close> the flag says that the previous character was a
  digit. A text with more than \<open>sys.get_int_max_str_digits()\<close> digit characters, 4300 by
  default since CPython 3.11, raises \<open>ValueError\<close> as well: leading zeros count, the sign,
  the whitespace and the underscores do not.
\<close>

definition int_max_str_digits :: nat where
  "int_max_str_digits = 4300"

fun int_digits :: "bool \<Rightarrow> string \<Rightarrow> nat \<Rightarrow> nat option" where
  "int_digits prev [] acc = (if prev then Some acc else None)"
| "int_digits prev (c # cs) acc =
     (if is_digit c then int_digits True cs (10 * acc + digit_val c)
      else if c = CHR ''_'' \<and> prev then int_digits False cs acc
      else None)"

definition int_of_digits :: "string \<Rightarrow> nat option" where
  "int_of_digits body =
     (if int_max_str_digits < length (filter is_digit body) then None
      else int_digits False body 0)"

definition py_int :: "string \<Rightarrow> exn + int" where
  "py_int s =
     (case strip_with is_c_space s of
        [] \<Rightarrow> Inl ValueError
      | c # cs \<Rightarrow>
          (if c = CHR ''-'' then
             (case int_of_digits cs of None \<Rightarrow> Inl ValueError | Some n \<Rightarrow> Inr (- int n))
           else if c = CHR ''+'' then
             (case int_of_digits cs of None \<Rightarrow> Inl ValueError | Some n \<Rightarrow> Inr (int n))
           else
             (case int_of_digits (c # cs) of None \<Rightarrow> Inl ValueError | Some n \<Rightarrow> Inr (int n))))"

text \<open>\<open>str(n)\<close> for an integer.\<close>

fun str_nat :: "nat \<Rightarrow> string" where
  "str_nat n = (if n < 10 then [digit_char n] else str_nat (n div 10) @ [digit_char (n mod 10)])"

declare str_nat.simps [simp del]

definition str_int :: "int \<Rightarrow> string" where
  "str_int i = (if i < 0 then CHR ''-'' # str_nat (nat (- i)) else str_nat (nat i))"

text \<open>A list comprehension \<open>[f(x) for x in xs]\<close> whose body can raise: the first exception
  ends it.\<close>

fun map_exn :: "('a \<Rightarrow> exn + 'b) \<Rightarrow> 'a list \<Rightarrow> exn + 'b list" where
  "map_exn f [] = Inr []"
| "map_exn f (x # xs) =
     (case f x of
        Inl e \<Rightarrow> Inl e
      | Inr y \<Rightarrow> (case map_exn f xs of Inl e \<Rightarrow> Inl e | Inr ys \<Rightarrow> Inr (y # ys)))"

section \<open>Version comparator\<close>

type_synonym version = "int \<times> int \<times> int"

text \<open>The body of the \<open>try\<close> block of \<open>parse_semantic_version\<close>. Unpacking a list that does
  not have three elements raises \<open>ValueError\<close>.\<close>

definition parse_semantic_version_try :: "string \<Rightarrow> exn + version option" where
  "parse_semantic_version_try version_string =
     (let version = lstrip ''v'' version_string;
          parts = split_on CHR ''.'' version
      in if length parts \<noteq> 3 then Inr None
         else (case map_exn py_int parts of
                 Inl e \<Rightarrow> Inl e
               | Inr [major, minor, patch] \<Rightarrow>
                   (if major < 0 \<or> minor < 0 \<or> patch < 0 then Inr None
                    else Inr (Some (major, minor, patch)))
               | Inr _ \<Rightarrow> Inl ValueError))"

text \<open>\<open>parse_semantic_version\<close>: the \<open>try\<close> block under its handler
  \<open>except (ValueError, AttributeError): return None\<close>.\<close>

definition parse_semantic_version :: "string \<Rightarrow> exn + version option" where
  "parse_semantic_version version_string =
     (case parse_semantic_version_try version_string of
        Inl e \<Rightarrow> (if is_ValueError e \<or> e = AttributeError then Inr None else Inl e)
      | Inr r \<Rightarrow> Inr r)"

text \<open>Python's \<open><\<close> on tuples of three integers.\<close>

definition tuple_lt :: "version \<Rightarrow> version \<Rightarrow> bool" where
  "tuple_lt a b =
     (case a of (a1, a2, a3) \<Rightarrow> case b of (b1, b2, b3) \<Rightarrow>
        a1 < b1 \<or> (a1 = b1 \<and> (a2 < b2 \<or> (a2 = b2 \<and> a3 < b3))))"

definition compare_versions :: "version \<Rightarrow> version \<Rightarrow> int" where
  "compare_versions current latest =
     (if tuple_lt current latest then - 1
      else if current = latest then 0
      else 1)"

text \<open>Modelled from the spec: the script has no function that renders a version; the spec's
  \<open>string(v)\<close> is the text \<open>major.minor.patch\<close> with each component in decimal, whatever
  its size.\<close>

definition version_string :: "version \<Rightarrow> string" where
  "version_string v =
     (case v of (major, minor, patch) \<Rightarrow>
        str_int major @ ''.'' @ str_int minor @ ''.'' @ str_int patch)"

definition valid_version :: "version \<Rightarrow> bool" where
  "valid_version v = (case v of (major, minor, patch) \<Rightarrow> 0 \<le> major \<and> 0 \<le> minor \<and> 0 \<le> patch)"

text \<open>The versions whose components have at most \<open>int_max_str_digits\<close> decimal digits.\<close>

definition within_digit_limit :: "version \<Rightarrow> bool" where
  "within_digit_limit v =
     (case v of (major, minor, patch) \<Rightarrow>
        major < 10 ^ int_max_str_digits \<and> minor < 10 ^ int_max_str_digits
        \<and> patch < 10 ^ int_max_str_digits)"

section \<open>Issue store\<close>

datatype severity = CRITICAL | HIGH | MEDIUM | LOW | INFO

text \<open>Every call of \<open>add_issue\<close> in the script passes one of these five literals.\<close>

definition severity_name :: "severity \<Rightarrow> string" where
  "severity_name s =
     (case s of CRITICAL \<Rightarrow> ''CRITICAL'' | HIGH \<Rightarrow> ''HIGH'' | MEDIUM \<Rightarrow> ''MEDIUM''
      | LOW \<Rightarrow> ''LOW'' | INFO \<Rightarrow> ''INFO'')"

record issue =
  severity :: severity
  category :: string
  description :: string
  details :: "string option"
  timestamp :: string

text \<open>
  What the script takes from the Python runtime and the clock. A finite float is identified
  with the rational number it denotes (infinities and NaN are not modelled): \<open>fl\<close> rounds the
  exact result of an operation to the nearest float, \<open>float_of_str\<close> is \<open>float(s)\<close>,
  \<open>float_repr\<close> is \<open>str(x)\<close>, \<open>float_fixed n\<close> is the format \<open>.nf\<close>, \<open>str_exn\<close> is the text of
  an exception, and \<open>now k\<close> is \<open>datetime.now().isoformat()\<close> as read when the store holds
  \<open>k\<close> issues. A comparison of a float with an integer is exact in Python, as it is here.
\<close>

record runtime =
  fl :: "rat \<Rightarrow> rat"
  float_of_str :: "string \<Rightarrow> exn + rat"
  float_repr :: "rat \<Rightarrow> string"
  float_fixed :: "nat \<Rightarrow> rat \<Rightarrow> string"
  str_exn :: "exn \<Rightarrow> string"
  now :: "nat \<Rightarrow> string"

text \<open>The module-level settings that the modelled functions read.\<close>

record config =
  OUTPUT_DIR :: string
  EMAIL_ENABLED :: bool
  GPG_ENABLED :: bool
  GPG_RECIPIENT :: string
  GPG_DELETE_UNENCRYPTED :: bool
  FILESYSTEM_WARNING_THRESHOLD :: int
  FILESYSTEM_CRITICAL_THRESHOLD :: int
  MEMORY_WARNING_THRESHOLD :: int
  MEMORY_CRITICAL_THRESHOLD :: int
  LOAD_WARNING_MULTIPLIER :: rat
  LOAD_CRITICAL_MULTIPLIER :: rat

text \<open>\<open>add_issue\<close> appends to the global list \<open>issues\<close>; the list is passed and returned.\<close>

definition add_issue ::
  "runtime \<Rightarrow> severity \<Rightarrow> string \<Rightarrow> string \<Rightarrow> string option \<Rightarrow> issue list \<Rightarrow> issue list" where
  "add_issue R sev cat desc det issues =
     issues @ [\<lparr>severity = sev, category = cat, description = desc, details = det,
                timestamp = now R (length issues)\<rparr>]"

text \<open>Sequencing of statements that can raise, indexing a list, and a \<open>for\<close> loop whose
  body can raise.\<close>

definition then_exn :: "exn + 'a \<Rightarrow> ('a \<Rightarrow> exn + 'b) \<Rightarrow> exn + 'b" where
  "then_exn r k = (case r of Inl e \<Rightarrow> Inl e | Inr x \<Rightarrow> k x)"

definition getitem :: "'a list \<Rightarrow> nat \<Rightarrow> exn + 'a" where
  "getitem xs i = (if i < length xs then Inr (xs ! i) else Inl IndexError)"


text \<open>The result of \<open>run_command\<close>: return code, standard output, standard error.\<close>

type_synonym command_result = "int \<times> string \<times> string"

section \<open>System health checks\<close>

text \<open>\<open>check_load_average\<close>: the \<open>try\<close> block, then the function with its handler
  \<open>except Exception\<close>. The inputs are the result of reading \<open>/proc/loadavg\<close> and the value
  of \<open>os.cpu_count()\<close>.\<close>

definition check_load_average_try ::
  "runtime \<Rightarrow> config \<Rightarrow> exn + string \<Rightarrow> nat option \<Rightarrow> issue list \<Rightarrow> exn + issue list" where
  "check_load_average_try R cfg proc_loadavg os_cpu_count issues =
     then_exn proc_loadavg (\<lambda>text.
     let loadavg = split_ws (strip text) in
     then_exn (then_exn (getitem loadavg 0) (float_of_str R)) (\<lambda>load_1min.
     then_exn (then_exn (getitem loadavg 1) (float_of_str R)) (\<lambda>load_5min.
     then_exn (then_exn (getitem loadavg 2) (float_of_str R)) (\<lambda>load_15min.
     let cpu_count = (case os_cpu_count of None \<Rightarrow> 1 | Some n \<Rightarrow> if n = 0 then 1 else n);
         load_per_cpu = fl R (load_1min / of_nat cpu_count);
         per_cpu = float_repr R load_1min @ '' ('' @ float_fixed R 2 load_per_cpu @ '' per CPU)'';
         det = ''CPU count: '' @ str_nat cpu_count @ '', 1/5/15 min: '' @ float_repr R load_1min
               @ ''/'' @ float_repr R load_5min @ ''/'' @ float_repr R load_15min
     in if load_per_cpu > LOAD_CRITICAL_MULTIPLIER cfg then
          Inr (add_issue R CRITICAL ''System Health''
                 (''Load average critically high: '' @ per_cpu) (Some det) issues)
        else if load_per_cpu > LOAD_WARNING_MULTIPLIER cfg then
          Inr (add_issue R HIGH ''System Health''
                 (''Load average high: '' @ per_cpu) (Some det) issues)
        else
          Inr (add_issue R INFO ''System Health''
                 (''Load average normal: '' @ per_cpu) (Some det) issues)))))"

definition check_load_average ::
  "runtime \<Rightarrow> config \<Rightarrow> exn + string \<Rightarrow> nat option \<Rightarrow> issue list \<Rightarrow> exn + issue list" where
  "check_load_average R cfg proc_loadavg os_cpu_count issues =
     (case check_load_average_try R cfg proc_loadavg os_cpu_count issues of
        Inl e \<Rightarrow>
          (if is_Exception e then
             Inr (add_issue R LOW ''System Health'' ''Cannot check load average''
                    (Some (str_exn R e)) issues)
           else Inl e)
      | Inr r \<Rightarrow> Inr r)"


section \<open>Storage checks\<close>



section \<open>Inputs for the examples\<close>

text \<open>
  A runtime for evaluating the checks on whole numbers, where every float operation of the
  model is exact: rounding changes nothing, a whole number is rendered with its digits, a
  dot and zeros, and \<open>float\<close> reads such a text back. The clock is stopped.
\<close>

definition whole_float_of_str :: "string \<Rightarrow> exn + rat" where
  "whole_float_of_str s =
     (case split_on CHR ''.'' s of
        [a] \<Rightarrow> then_exn (py_int a) (\<lambda>i. Inr (of_int i))
      | [a, b] \<Rightarrow>
          (if b \<noteq> [] \<and> list_all (\<lambda>c. c = CHR ''0'') b
           then then_exn (py_int a) (\<lambda>i. Inr (of_int i))
           else Inl ValueError)
      | _ \<Rightarrow> Inl ValueError)"

definition whole_runtime :: runtime where
  "whole_runtime =
     \<lparr>fl = (\<lambda>x. x),
      float_of_str = whole_float_of_str,
      float_repr = (\<lambda>x. str_int \<lfloor>x\<rfloor> @ ''.0''),
      float_fixed = (\<lambda>n x. str_int \<lfloor>x\<rfloor> @ ''.'' @ replicate n CHR ''0''),
      str_exn = (\<lambda>e. ''error''),
      now = (\<lambda>k. ''2025-01-01T00:00:00'')\<rparr>"

text \<open>The defaults that the script passes to \<open>_cfg\<close>, for a user who is not root.\<close>

definition default_config :: config where
  "default_config =
     \<lparr>OUTPUT_DIR = ''/tmp'',
      EMAIL_ENABLED = False,
      GPG_ENABLED = False,
      GPG_RECIPIENT = ''root@localhost'',
      GPG_DELETE_UNENCRYPTED = False,
      FILESYSTEM_WARNING_THRESHOLD = 80,
      FILESYSTEM_CRITICAL_THRESHOLD = 90,
      MEMORY_WARNING_THRESHOLD = 80,
      MEMORY_CRITICAL_THRESHOLD = 90,
      LOAD_WARNING_MULTIPLIER = 2,
      LOAD_CRITICAL_MULTIPLIER = 3\<rparr>"

section \<open>Security checks\<close>


















section \<open>Configuration resolver\<close>

text \<open>
  The \<open>value_type\<close> argument of \<open>_cfg\<close> (\<open>TStr\<close> stands for \<open>str\<close> and for any type that is not
  one of the other three: the code returns the text as it is), and the values it returns.
\<close>

datatype value_type = TStr | TInt | TFloat | TBool

datatype pyval = VStr string | VInt int | VFloat rat | VBool bool

text \<open>
  The loaded \<open>configparser.ConfigParser\<close>, by the two methods everything else rests on.
  \<open>getint\<close>, \<open>getfloat\<close> and \<open>getboolean\<close> are the standard library's: the text given by
  \<open>get\<close>, converted with \<open>int\<close>, \<open>float\<close>, or the table \<open>BOOLEAN_STATES\<close> on the lowercased
  text, where a text outside the table raises \<open>ValueError\<close>.
\<close>

record config_parser =
  has_option :: "string \<Rightarrow> string \<Rightarrow> bool"
  get :: "string \<Rightarrow> string \<Rightarrow> exn + string"

definition BOOLEAN_STATES :: "(string \<times> bool) list" where
  "BOOLEAN_STATES =
     [(''1'', True), (''yes'', True), (''true'', True), (''on'', True),
      (''0'', False), (''no'', False), (''false'', False), (''off'', False)]"

definition convert_to_boolean :: "string \<Rightarrow> exn + bool" where
  "convert_to_boolean v =
     (case map_of BOOLEAN_STATES (lower v) of None \<Rightarrow> Inl ValueError | Some b \<Rightarrow> Inr b)"

definition getboolean :: "config_parser \<Rightarrow> string \<Rightarrow> string \<Rightarrow> exn + bool" where
  "getboolean cp section key = then_exn (get cp section key) convert_to_boolean"

definition getint :: "config_parser \<Rightarrow> string \<Rightarrow> string \<Rightarrow> exn + int" where
  "getint cp section key = then_exn (get cp section key) py_int"

definition getfloat :: "runtime \<Rightarrow> config_parser \<Rightarrow> string \<Rightarrow> string \<Rightarrow> exn + rat" where
  "getfloat R cp section key = then_exn (get cp section key) (float_of_str R)"

text \<open>The body of the first \<open>try\<close> of \<open>_cfg\<close>, on the value of the environment variable.\<close>

definition cfg_env_try :: "runtime \<Rightarrow> value_type \<Rightarrow> string \<Rightarrow> exn + pyval" where
  "cfg_env_try R value_type env_val =
     (case value_type of
        TBool \<Rightarrow> Inr (VBool (lower env_val \<in> set [''true'', ''1'', ''yes'', ''on'']))
      | TInt \<Rightarrow> then_exn (py_int env_val) (\<lambda>i. Inr (VInt i))
      | TFloat \<Rightarrow> then_exn (float_of_str R env_val) (\<lambda>x. Inr (VFloat x))
      | TStr \<Rightarrow> Inr (VStr env_val))"

text \<open>The body of the second \<open>try\<close>, on the configuration file.\<close>

definition cfg_file_try ::
  "runtime \<Rightarrow> config_parser \<Rightarrow> string \<Rightarrow> string \<Rightarrow> value_type \<Rightarrow> exn + pyval" where
  "cfg_file_try R cp section key value_type =
     (case value_type of
        TBool \<Rightarrow> then_exn (getboolean cp section key) (\<lambda>b. Inr (VBool b))
      | TInt \<Rightarrow> then_exn (getint cp section key) (\<lambda>i. Inr (VInt i))
      | TFloat \<Rightarrow> then_exn (getfloat R cp section key) (\<lambda>x. Inr (VFloat x))
      | TStr \<Rightarrow> then_exn (get cp section key) (\<lambda>s. Inr (VStr s)))"

text \<open>
  Priorities 2 and 3 of \<open>_cfg\<close>: the configuration file under the handler
  \<open>except (ValueError, TypeError, configparser.Error): pass\<close>, then the default. The module
  variable \<open>_config\<close> is \<open>None\<close> until a file is loaded; a parser object is always true.
\<close>

definition cfg_file_or_default ::
  "runtime \<Rightarrow> bool \<Rightarrow> config_parser option \<Rightarrow> string \<Rightarrow> string \<Rightarrow> pyval \<Rightarrow> value_type
     \<Rightarrow> exn + pyval" where
  "cfg_file_or_default R has_config config section key default_value value_type =
     (case config of
        None \<Rightarrow> Inr default_value
      | Some cp \<Rightarrow>
          (if has_config \<and> has_option cp section key then
             (case cfg_file_try R cp section key value_type of
                Inr v \<Rightarrow> Inr v
              | Inl e \<Rightarrow>
                  (if is_ValueError e \<or> e = TypeError \<or> e = ConfigparserError then Inr default_value
                   else Inl e))
           else Inr default_value))"

text \<open>
  \<open>_cfg\<close> as \<open>py_cfg\<close>. \<open>getenv\<close> is \<open>os.getenv\<close>; the
  handler of the first \<open>try\<close> is \<open>except (ValueError, TypeError): pass\<close>.
\<close>

definition py_cfg ::
  "runtime \<Rightarrow> (string \<Rightarrow> string option) \<Rightarrow> bool \<Rightarrow> config_parser option
     \<Rightarrow> string \<Rightarrow> string \<Rightarrow> pyval \<Rightarrow> value_type \<Rightarrow> exn + pyval" where
  "py_cfg R getenv has_config config section key default_value value_type =
     (let env_key = upper key;
          env_val = getenv env_key
      in case env_val of
           None \<Rightarrow> cfg_file_or_default R has_config config section key default_value value_type
         | Some v \<Rightarrow>
             (case cfg_env_try R value_type v of
                Inr x \<Rightarrow> Inr x
              | Inl e \<Rightarrow>
                  (if is_ValueError e \<or> e = TypeError
                   then cfg_file_or_default R has_config config section key default_value value_type
                   else Inl e)))"

text \<open>
  The resolver in the words of the specification, layer by layer: the value of a layer is
  \<open>None\<close> when the layer is absent or its text cannot be coerced. An environment text
  always coerces to a boolean; a file text coerces to a boolean only when, lowercased, it is
  one of \<open>1, yes, true, on\<close> or \<open>0, no, false, off\<close>.
\<close>

definition env_coerced :: "runtime \<Rightarrow> value_type \<Rightarrow> string \<Rightarrow> pyval option" where
  "env_coerced R value_type v =
     (case value_type of
        TBool \<Rightarrow> Some (VBool (lower v \<in> set [''true'', ''1'', ''yes'', ''on'']))
      | TInt \<Rightarrow> (case py_int v of Inr i \<Rightarrow> Some (VInt i) | Inl e \<Rightarrow> None)
      | TFloat \<Rightarrow> (case float_of_str R v of Inr x \<Rightarrow> Some (VFloat x) | Inl e \<Rightarrow> None)
      | TStr \<Rightarrow> Some (VStr v))"

definition file_coerced :: "runtime \<Rightarrow> value_type \<Rightarrow> string \<Rightarrow> pyval option" where
  "file_coerced R value_type v =
     (case value_type of
        TBool \<Rightarrow>
          (if lower v \<in> set [''1'', ''yes'', ''true'', ''on''] then Some (VBool True)
           else if lower v \<in> set [''0'', ''no'', ''false'', ''off''] then Some (VBool False)
           else None)
      | TInt \<Rightarrow> (case py_int v of Inr i \<Rightarrow> Some (VInt i) | Inl e \<Rightarrow> None)
      | TFloat \<Rightarrow> (case float_of_str R v of Inr x \<Rightarrow> Some (VFloat x) | Inl e \<Rightarrow> None)
      | TStr \<Rightarrow> Some (VStr v))"

definition env_layer ::
  "runtime \<Rightarrow> (string \<Rightarrow> string option) \<Rightarrow> string \<Rightarrow> value_type \<Rightarrow> pyval option" where
  "env_layer R getenv key value_type =
     (case getenv (upper key) of None \<Rightarrow> None | Some v \<Rightarrow> env_coerced R value_type v)"

definition file_layer ::
  "runtime \<Rightarrow> bool \<Rightarrow> config_parser option \<Rightarrow> string \<Rightarrow> string \<Rightarrow> value_type \<Rightarrow> pyval option" where
  "file_layer R has_config config section key value_type =
     (case config of
        None \<Rightarrow> None
      | Some cp \<Rightarrow>
          (if has_config \<and> has_option cp section key then
             (case get cp section key of
                Inl e \<Rightarrow> None
              | Inr v \<Rightarrow> file_coerced R value_type v)
           else None))"

definition resolve ::
  "runtime \<Rightarrow> (string \<Rightarrow> string option) \<Rightarrow> bool \<Rightarrow> config_parser option
     \<Rightarrow> string \<Rightarrow> string \<Rightarrow> pyval \<Rightarrow> value_type \<Rightarrow> pyval" where
  "resolve R getenv has_config config section key default_value value_type =
     (case env_layer R getenv key value_type of
        Some x \<Rightarrow> x
      | None \<Rightarrow>
          (case file_layer R has_config config section key value_type of
             Some x \<Rightarrow> x
           | None \<Rightarrow> default_value))"

text \<open>For the examples: an environment without variables, and a loaded file whose section
  \<open>version_check\<close> has \<open>enabled = maybe\<close> and nothing else.\<close>

definition no_environment :: "string \<Rightarrow> string option" where
  "no_environment name = None"

definition example_parser :: config_parser where
  "example_parser =
     \<lparr>has_option = (\<lambda>section key. section = ''version_check'' \<and> key = ''enabled''),
      get = (\<lambda>section key.
               if section = ''version_check'' \<and> key = ''enabled'' then Inr ''maybe''
               else Inl ConfigparserError)\<rparr>"

text \<open>
  A second pair for the examples. The environment sets \<open>MEMORY_WARNING=85\<close>,
  \<open>LOAD_WARNING=high\<close>, \<open>TIMEOUT=soon\<close> and \<open>USE_TLS=Yes\<close>. The file is
  \<^verbatim>\<open>
  [thresholds]
  memory_warning = 70
  load_warning = 150
  [version_check]
  timeout = 2.0
  enabled = maybe
  [email]
  subject = Report 100% done
  \<close>
  where reading \<open>subject\<close> raises the interpolation error of \<open>configparser\<close>.
\<close>

definition sample_environment :: "string \<Rightarrow> string option" where
  "sample_environment name =
     map_of [(''MEMORY_WARNING'', ''85''), (''LOAD_WARNING'', ''high''),
             (''TIMEOUT'', ''soon''), (''USE_TLS'', ''Yes'')] name"

definition sample_options :: "((string \<times> string) \<times> string) list" where
  "sample_options =
     [((''thresholds'', ''memory_warning''), ''70''),
      ((''thresholds'', ''load_warning''), ''150''),
      ((''version_check'', ''timeout''), ''2.0''),
      ((''version_check'', ''enabled''), ''maybe'')]"

definition sample_parser :: config_parser where
  "sample_parser =
     \<lparr>has_option = (\<lambda>section key.
                      (section, key) \<in> set (map fst sample_options)
                      \<or> (section = ''email'' \<and> key = ''subject'')),
      get = (\<lambda>section key.
               case map_of sample_options (section, key) of
                 Some v \<Rightarrow> Inr v
               | None \<Rightarrow> Inl ConfigparserError)\<rparr>"

section \<open>Report exporters\<close>

text \<open>
  A Python \<open>dict\<close> as an association list in insertion order: \<open>dict_get d k v\<close> is
  \<open>d.get(k, v)\<close>, and \<open>dict_set d k v\<close> is \<open>d[k] = v\<close>, which keeps the place of a key that
  is present and puts a new key last.
\<close>

definition dict_get :: "('k \<times> 'v) list \<Rightarrow> 'k \<Rightarrow> 'v \<Rightarrow> 'v" where
  "dict_get d k v = (case map_of d k of None \<Rightarrow> v | Some w \<Rightarrow> w)"

fun dict_set :: "('k \<times> 'v) list \<Rightarrow> 'k \<Rightarrow> 'v \<Rightarrow> ('k \<times> 'v) list" where
  "dict_set [] k v = [(k, v)]"
| "dict_set (p # d) k v = (if fst p = k then (k, v) # d else p # dict_set d k v)"

text \<open>The loop \<open>severity_counts[sev] = severity_counts.get(sev, 0) + 1\<close> that every exporter
  runs over the store.\<close>

definition count_issue :: "(severity \<times> nat) list \<Rightarrow> issue \<Rightarrow> (severity \<times> nat) list" where
  "count_issue counts i = (let sev = severity i in dict_set counts sev (dict_get counts sev 0 + 1))"

definition severity_counts :: "issue list \<Rightarrow> (severity \<times> nat) list" where
  "severity_counts issues = foldl count_issue [] issues"

text \<open>The loop that groups the issues by category, each group in insertion order.\<close>

definition group_issue :: "(string \<times> issue list) list \<Rightarrow> issue \<Rightarrow> (string \<times> issue list) list" where
  "group_issue categories i =
     (let cat = category i in dict_set categories cat (dict_get categories cat [] @ [i]))"

definition categories_of :: "issue list \<Rightarrow> (string \<times> issue list) list" where
  "categories_of issues = foldl group_issue [] issues"

text \<open>
  \<open>OS_INFO\<close> is a dictionary whose values are texts or \<open>None\<close>; \<open>py_str\<close> is what an
  f-string prints for such a value. The truth value of \<open>issue["details"]\<close> is false for
  \<open>None\<close> and for the empty text.
\<close>

type_synonym os_info = "(string \<times> string option) list"

definition py_str :: "string option \<Rightarrow> string" where
  "py_str v = (case v of None \<Rightarrow> ''None'' | Some s \<Rightarrow> s)"

definition has_details :: "issue \<Rightarrow> bool" where
  "has_details i = (case details i of None \<Rightarrow> False | Some d \<Rightarrow> d \<noteq> [])"

definition NL :: string where
  "NL = [CHR 0x0A]"

definition all_severities :: "severity list" where
  "all_severities = [CRITICAL, HIGH, MEDIUM, LOW, INFO]"

text \<open>The table \<open>severity_emoji\<close>, in UTF-8.\<close>

definition severity_emoji :: "severity \<Rightarrow> string" where
  "severity_emoji s =
     (case s of
        CRITICAL \<Rightarrow> [CHR 0xF0, CHR 0x9F, CHR 0x94, CHR 0xB4]
      | HIGH \<Rightarrow> [CHR 0xF0, CHR 0x9F, CHR 0x9F, CHR 0xA0]
      | MEDIUM \<Rightarrow> [CHR 0xF0, CHR 0x9F, CHR 0x9F, CHR 0xA1]
      | LOW \<Rightarrow> [CHR 0xF0, CHR 0x9F, CHR 0x94, CHR 0xB5]
      | INFO \<Rightarrow> [CHR 0xE2, CHR 0x84, CHR 0xB9, CHR 0xEF, CHR 0xB8, CHR 0x8F])"

subsection \<open>Markdown\<close>

text \<open>\<open>export_markdown\<close> builds its text in three stretches: the heading, the summary and
  the issues by category. \<open>date\<close> is the formatted current time.\<close>

definition markdown_heading :: "string \<Rightarrow> os_info \<Rightarrow> string \<Rightarrow> string" where
  "markdown_heading HOSTNAME OS_INFO date =
     ''# Linux Health Check Report'' @ NL @ NL
     @ ''**Hostname:** '' @ HOSTNAME @ NL @ NL
     @ ''**Date:** '' @ date @ NL @ NL
     @ ''**OS:** '' @ py_str (dict_get OS_INFO ''distribution'' (Some ''Unknown''))
       @ '' '' @ py_str (dict_get OS_INFO ''version'' (Some '''')) @ NL @ NL
     @ ''---'' @ NL @ NL"

definition markdown_summary :: "issue list \<Rightarrow> string" where
  "markdown_summary issues =
     (let counts = severity_counts issues
      in ''## Summary'' @ NL @ NL
         @ concat (map (\<lambda>sev. ''- **'' @ severity_name sev @ '':** ''
                              @ str_nat (dict_get counts sev 0) @ NL) all_severities)
         @ NL @ ''**Total Issues:** '' @ str_nat (length issues) @ NL @ NL
         @ ''---'' @ NL @ NL)"

definition markdown_issue :: "issue \<Rightarrow> string" where
  "markdown_issue i =
     ''### '' @ severity_emoji (severity i) @ '' ['' @ severity_name (severity i) @ ''] ''
     @ description i @ NL @ NL
     @ (if has_details i then ''```'' @ NL @ py_str (details i) @ NL @ ''```'' @ NL @ NL else [])"

definition markdown_issues :: "issue list \<Rightarrow> string" where
  "markdown_issues issues =
     (let categories = categories_of issues
      in concat (map (\<lambda>cat. ''## '' @ cat @ NL @ NL
                            @ concat (map markdown_issue (dict_get categories cat [])))
                   (sort (map fst categories))))"

definition export_markdown :: "string \<Rightarrow> os_info \<Rightarrow> string \<Rightarrow> issue list \<Rightarrow> string" where
  "export_markdown HOSTNAME OS_INFO date issues =
     markdown_heading HOSTNAME OS_INFO date @ markdown_summary issues @ markdown_issues issues"

subsection \<open>Plain text\<close>

text \<open>\<open>ljust n s\<close> is the format \<open>{s:n}\<close> of a text: padded with spaces on the right.\<close>

definition ljust :: "nat \<Rightarrow> string \<Rightarrow> string" where
  "ljust n s = s @ replicate (n - length s) CHR '' ''"

definition text_heading :: "string \<Rightarrow> os_info \<Rightarrow> string \<Rightarrow> string" where
  "text_heading HOSTNAME OS_INFO date =
     replicate 80 CHR ''='' @ NL
     @ ''Linux Health Check Report'' @ NL
     @ replicate 80 CHR ''='' @ NL @ NL
     @ ''Hostname: '' @ HOSTNAME @ NL
     @ ''Date: '' @ date @ NL
     @ ''OS: '' @ py_str (dict_get OS_INFO ''distribution'' (Some ''Unknown''))
       @ '' '' @ py_str (dict_get OS_INFO ''version'' (Some '''')) @ NL
     @ NL @ replicate 80 CHR ''-'' @ NL
     @ ''SUMMARY'' @ NL
     @ replicate 80 CHR ''-'' @ NL @ NL"

definition text_summary :: "issue list \<Rightarrow> string" where
  "text_summary issues =
     (let counts = severity_counts issues
      in concat (map (\<lambda>sev. ljust 12 (severity_name sev) @ '' ''
                              @ str_nat (dict_get counts sev 0) @ NL) all_severities)
         @ NL @ ''Total Issues: '' @ str_nat (length issues) @ NL @ NL)"

definition text_issue :: "issue \<Rightarrow> string" where
  "text_issue i =
     ''['' @ severity_name (severity i) @ ''] '' @ description i @ NL
     @ (if has_details i then ''  Details: '' @ py_str (details i) @ NL else [])
     @ NL"

definition text_issues :: "issue list \<Rightarrow> string" where
  "text_issues issues =
     (let categories = categories_of issues
      in replicate 80 CHR ''='' @ NL
         @ ''ISSUES'' @ NL
         @ replicate 80 CHR ''='' @ NL @ NL
         @ concat (map (\<lambda>cat. NL @ cat @ NL
                              @ replicate (length cat) CHR ''-'' @ NL @ NL
                              @ concat (map text_issue (dict_get categories cat [])))
                     (sort (map fst categories))))"

definition export_text :: "string \<Rightarrow> os_info \<Rightarrow> string \<Rightarrow> issue list \<Rightarrow> string" where
  "export_text HOSTNAME OS_INFO date issues =
     text_heading HOSTNAME OS_INFO date @ text_summary issues @ text_issues issues"

subsection \<open>JSON\<close>

text \<open>\<open>export_json\<close> builds a dictionary and hands it to \<open>json.dumps\<close>; the model is the
  dictionary, as a JSON value. \<open>stamp\<close> is the current time in ISO format.\<close>

datatype json =
    JNull
  | JStr string
  | JInt int
  | JArray "json list"
  | JObject "(string \<times> json) list"

definition json_of_text :: "string option \<Rightarrow> json" where
  "json_of_text v = (case v of None \<Rightarrow> JNull | Some s \<Rightarrow> JStr s)"

definition json_of_issue :: "issue \<Rightarrow> json" where
  "json_of_issue i =
     JObject [(''severity'', JStr (severity_name (severity i))),
              (''category'', JStr (category i)),
              (''description'', JStr (description i)),
              (''details'', json_of_text (details i)),
              (''timestamp'', JStr (timestamp i))]"

definition export_json :: "string \<Rightarrow> os_info \<Rightarrow> string \<Rightarrow> issue list \<Rightarrow> json" where
  "export_json HOSTNAME OS_INFO stamp issues =
     JObject [(''hostname'', JStr HOSTNAME),
              (''timestamp'', JStr stamp),
              (''os_info'', JObject (map (\<lambda>(k, v). (k, json_of_text v)) OS_INFO)),
              (''summary'', JObject (map (\<lambda>(sev, n). (severity_name sev, JInt (int n)))
                                        (severity_counts issues))),
              (''issues'', JArray (map json_of_issue issues))]"

text \<open>Reading a member of a JSON object.\<close>

definition json_member :: "json \<Rightarrow> string \<Rightarrow> json option" where
  "json_member j k = (case j of JObject members \<Rightarrow> map_of members k | _ \<Rightarrow> None)"

subsection \<open>XML\<close>

text \<open>\<open>export_xml\<close> builds an element tree and hands it to \<open>ET.tostring\<close>; the model is the
  tree. An element has a tag, attributes, an optional text and children.\<close>

datatype xml = Element string "(string \<times> string) list" "string option" "xml list"

definition xml_of_issue :: "issue \<Rightarrow> xml" where
  "xml_of_issue i =
     Element ''issue'' [] None
       ([Element ''severity'' [] (Some (severity_name (severity i))) [],
         Element ''category'' [] (Some (category i)) [],
         Element ''description'' [] (Some (description i)) [],
         Element ''timestamp'' [] (Some (timestamp i)) []]
        @ (if has_details i then [Element ''details'' [] (Some (py_str (details i))) []] else []))"

definition xml_summary :: "issue list \<Rightarrow> xml" where
  "xml_summary issues =
     Element ''summary'' [] None
       (map (\<lambda>(sev, n). Element ''severity'' [(''level'', severity_name sev)] (Some (str_nat n)) [])
          (severity_counts issues))"

definition export_xml :: "string \<Rightarrow> os_info \<Rightarrow> string \<Rightarrow> issue list \<Rightarrow> xml" where
  "export_xml HOSTNAME OS_INFO stamp issues =
     Element ''health_check_report'' [] None
       [Element ''metadata'' [] None
          [Element ''hostname'' [] (Some HOSTNAME) [],
           Element ''timestamp'' [] (Some stamp) [],
           Element ''distribution'' [] (dict_get OS_INFO ''distribution'' (Some ''Unknown'')) [],
           Element ''version'' [] (dict_get OS_INFO ''version'' (Some ''Unknown'')) []],
        xml_summary issues,
        Element ''issues'' [] None (map xml_of_issue issues)]"

text \<open>Reading the tree: the children of an element, the children with a given tag, and the
  text of the \<open>severity\<close> elements of the summary for one level.\<close>

definition children :: "xml \<Rightarrow> xml list" where
  "children x = (case x of Element tag attrib text cs \<Rightarrow> cs)"

definition tag_of :: "xml \<Rightarrow> string" where
  "tag_of x = (case x of Element tag attrib text cs \<Rightarrow> tag)"

definition find_all :: "xml \<Rightarrow> string \<Rightarrow> xml list" where
  "find_all x tag = filter (\<lambda>c. tag_of c = tag) (children x)"

definition level_texts :: "xml \<Rightarrow> string \<Rightarrow> string option list" where
  "level_texts summary level =
     concat (map (\<lambda>c. case c of Element tag attrib text cs \<Rightarrow>
                        if tag = ''severity'' \<and> map_of attrib ''level'' = Some level then [text]
                        else [])
               (children summary))"

subsection \<open>The counts the exporters are compared with\<close>

text \<open>The direct count of the issues of one severity in the store, and the summary lines
  that the Markdown and text reports must show for it.\<close>

definition count_by_severity :: "issue list \<Rightarrow> severity \<Rightarrow> nat" where
  "count_by_severity issues sev = length (filter (\<lambda>i. severity i = sev) issues)"

definition markdown_count_line :: "issue list \<Rightarrow> severity \<Rightarrow> string" where
  "markdown_count_line issues sev =
     ''- **'' @ severity_name sev @ '':** '' @ str_nat (count_by_severity issues sev) @ NL"

definition text_count_line :: "issue list \<Rightarrow> severity \<Rightarrow> string" where
  "text_count_line issues sev =
     ljust 12 (severity_name sev) @ '' '' @ str_nat (count_by_severity issues sev) @ NL"

section \<open>Encryption of the report\<close>

text \<open>
  The files of the host, by path. \<open>os.remove\<close> raises \<open>FileNotFoundError\<close> on a path that
  is not there.
\<close>

type_synonym files = "string \<rightharpoonup> string"

definition os_remove :: "files \<Rightarrow> string \<Rightarrow> exn + files" where
  "os_remove fs path = (if path \<in> dom fs then Inr (fs(path := None)) else Inl FileNotFoundError)"

definition command_exists :: "command_result \<Rightarrow> bool" where
  "command_exists which = (case which of (rc, stdout, stderr) \<Rightarrow> rc = 0)"

text \<open>
  \<open>encrypt_file_gpg\<close>. \<open>which_gpg\<close> is the result of \<open>which gpg\<close>. The run of \<open>gpg\<close> is given
  by its result and by what it wrote to the path after \<open>--output\<close>, if anything; \<open>gpg\<close>
  writes nowhere else. The function returns the path of the report and the files.
\<close>

definition encrypt_file_gpg ::
  "config \<Rightarrow> command_result \<Rightarrow> command_result \<times> string option \<Rightarrow> files \<Rightarrow> string
     \<Rightarrow> exn + string \<times> files" where
  "encrypt_file_gpg cfg which_gpg gpg fs file_path =
     (if \<not> GPG_ENABLED cfg \<or> GPG_RECIPIENT cfg = [] then Inr (file_path, fs)
      else if \<not> command_exists which_gpg then Inr (file_path, fs)
      else
        (let encrypted_path = file_path @ ''.gpg''
         in case gpg of ((rc, stdout, stderr), written) \<Rightarrow>
              (let fs' = (case written of None \<Rightarrow> fs | Some c \<Rightarrow> fs(encrypted_path \<mapsto> c))
               in if rc = 0 then
                    then_exn (os_remove fs' file_path) (\<lambda>fs''. Inr (encrypted_path, fs''))
                  else Inr (file_path, fs'))))"

section \<open>The runner\<close>

text \<open>
  What one run finds on the host. The probes of the four checks modelled above are given by
  their results; every other check is given by what it does to the store, under the name
  of its function. \<open>open_report\<close> is the result of opening the report file for writing
  (\<open>None\<close> when it opens), \<open>json_dumps\<close> and \<open>xml_tostring\<close> are the two library
  serialisers, \<open>strftime_now\<close> and \<open>isoformat_now\<close> the current time in the two formats used,
  \<open>hostname\<close> and \<open>detected_os\<close> the globals \<open>HOSTNAME\<close> and \<open>OS_INFO\<close>, and \<open>environ\<close> is
  \<open>os.getenv\<close>.
\<close>

record host =
  hostname :: string
  detected_os :: os_info
  environ :: "string \<Rightarrow> string option"
  systemctl_sshd :: command_result
  sshd_config_exists :: bool
  sshd_config :: "exn + string"
  authorized_keys :: "(exn + string) list"
  proc_loadavg :: "exn + string"
  os_cpu_count :: "nat option"
  free_m :: command_result
  df_h :: command_result
  other_check :: "string \<Rightarrow> issue list \<Rightarrow> exn + issue list"
  open_report :: "string \<Rightarrow> exn option"
  which_gpg :: command_result
  gpg_run :: "command_result \<times> string option"
  json_dumps :: "json \<Rightarrow> string"
  xml_tostring :: "xml \<Rightarrow> string"
  strftime_now :: string
  isoformat_now :: string








text \<open>
  For the examples: no files at all, and a host on which SSH is not running, the load is 1.0, \<open>free -m\<close> reports
  no memory at all, and every check that is not modelled adds nothing.
\<close>

definition no_files :: files where
  "no_files = Map.empty"



section \<open>Properties of the string and integer functions\<close>

lemma digit_char_props:
  assumes "d < 10"
  shows "is_digit (digit_char d)" "digit_val (digit_char d) = d"
  using assms by (simp_all add: is_digit_def digit_val_def digit_char_def)

lemma is_digit_not_special:
  assumes "is_digit c"
  shows "\<not> is_space c" "\<not> is_c_space c" "c \<noteq> CHR ''.''" "c \<noteq> CHR ''v''" "c \<noteq> CHR ''-''" "c \<noteq> CHR ''+''" "c \<noteq> CHR ''_''"
  using assms by (auto simp: is_digit_def is_space_def is_c_space_def)

lemma str_nat_digits: "c \<in> set (str_nat n) \<Longrightarrow> is_digit c"
proof (induction n arbitrary: c rule: str_nat.induct)
  case (1 n)
  show ?case
  proof (cases "n < 10")
    case True
    with "1.prems" show ?thesis by (subst (asm) str_nat.simps) (simp add: digit_char_props)
  next
    case False
    with "1.prems" have "c \<in> set (str_nat (n div 10)) \<or> c = digit_char (n mod 10)"
      by (subst (asm) str_nat.simps) auto
    with False "1.IH" show ?thesis by (auto simp: digit_char_props)
  qed
qed

lemma str_nat_nonempty: "str_nat n \<noteq> []"
  by (subst str_nat.simps) simp

lemma int_digits_str_nat:
  "int_digits p (str_nat n @ rest) acc = int_digits True rest (acc * 10 ^ length (str_nat n) + n)"
proof (induction n arbitrary: p rest acc rule: str_nat.induct)
  case (1 n)
  show ?case
  proof (cases "n < 10")
    case True
    then show ?thesis by (subst (1 2) str_nat.simps) (simp add: digit_char_props mult.commute)
  next
    case False
    have d: "n mod 10 < 10" by simp
    have "int_digits p (str_nat n @ rest) acc
        = int_digits p (str_nat (n div 10) @ (digit_char (n mod 10) # rest)) acc"
      using False by (subst str_nat.simps) simp
    also have "\<dots> = int_digits True (digit_char (n mod 10) # rest)
                        (acc * 10 ^ length (str_nat (n div 10)) + n div 10)"
      using False by (rule "1.IH")
    also have "\<dots> = int_digits True rest
                        (10 * (acc * 10 ^ length (str_nat (n div 10)) + n div 10) + n mod 10)"
      using d by (simp add: digit_char_props)
    also have "10 * (acc * 10 ^ length (str_nat (n div 10)) + n div 10) + n mod 10
             = acc * 10 ^ length (str_nat n) + n"
      using False by (subst (2) str_nat.simps) (simp add: algebra_simps)
    finally show ?thesis .
  qed
qed

lemma strip_with_none: "\<forall>c \<in> set s. \<not> p c \<Longrightarrow> strip_with p s = s"
proof -
  assume a: "\<forall>c \<in> set s. \<not> p c"
  have 1: "dropWhile p s = s" using a by (cases s) auto
  have 2: "dropWhile p (rev s) = rev s" using a by (cases "rev s") (auto dest: arg_cong[where f=set])
  show ?thesis by (simp add: strip_with_def 1 2)
qed

lemma int_max_str_digits_pos: "0 < int_max_str_digits"
  by (simp add: int_max_str_digits_def)

lemma str_nat_length_le: "0 < k \<Longrightarrow> n < 10 ^ k \<Longrightarrow> length (str_nat n) \<le> k"
proof (induction k arbitrary: n)
  case 0
  then show ?case by simp
next
  case (Suc k)
  show ?case
  proof (cases "n < 10")
    case True
    then show ?thesis by (subst str_nat.simps) simp
  next
    case False
    from Suc.prems have "n < 10 * 10 ^ k" by simp
    then have d: "n div 10 < 10 ^ k" by (simp add: less_mult_imp_div_less mult.commute)
    have "0 < k"
    proof (rule ccontr)
      assume "\<not> 0 < k"
      with Suc.prems False show False by simp
    qed
    then have "length (str_nat (n div 10)) \<le> k" using d by (rule Suc.IH)
    then show ?thesis using False by (subst str_nat.simps) simp
  qed
qed

lemma str_nat_length_gt: "10 ^ k \<le> n \<Longrightarrow> k < length (str_nat n)"
proof (induction k arbitrary: n)
  case 0
  show ?case using str_nat_nonempty [of n] by (cases "str_nat n") auto
next
  case (Suc k)
  then have big: "10 * 10 ^ k \<le> n" by simp
  have "(1::nat) \<le> 10 ^ k" by simp
  with big have ge: "\<not> n < 10" by linarith
  from big have "10 ^ k \<le> n div 10" by simp
  then have "k < length (str_nat (n div 10))" by (rule Suc.IH)
  then show ?case using ge by (subst str_nat.simps) simp
qed

lemma str_nat_within_limit:
  "length (str_nat n) \<le> int_max_str_digits \<longleftrightarrow> n < 10 ^ int_max_str_digits"
  using str_nat_length_le [OF int_max_str_digits_pos, of n]
        str_nat_length_gt [of int_max_str_digits n]
  by (cases "n < 10 ^ int_max_str_digits") auto

lemma filter_digits_str_nat: "filter is_digit (str_nat n) = str_nat n"
  by (rule filter_True) (simp add: str_nat_digits)

lemma py_int_str_nat:
  "py_int (str_nat n) = (if n < 10 ^ int_max_str_digits then Inr (int n) else Inl ValueError)"
proof -
  have s: "strip_with is_c_space (str_nat n) = str_nat n"
    by (rule strip_with_none) (auto dest: str_nat_digits is_digit_not_special)
  obtain c cs where cs: "str_nat n = c # cs"
    using str_nat_nonempty[of n] by (cases "str_nat n") auto
  have "is_digit c" using str_nat_digits[of c n] cs by simp
  then have ne: "c \<noteq> CHR ''-''" "c \<noteq> CHR ''+''" by (auto dest: is_digit_not_special)
  have "int_digits False (str_nat n @ []) 0 = Some n"
    by (subst int_digits_str_nat) simp
  then have d: "int_digits False (str_nat n) 0 = Some n" by simp
  have lim: "int_max_str_digits < length (str_nat n) \<longleftrightarrow> \<not> n < 10 ^ int_max_str_digits"
    using str_nat_within_limit [of n] by auto
  have "int_of_digits (str_nat n)
          = (if n < 10 ^ int_max_str_digits then Some n else None)"
    by (simp add: int_of_digits_def filter_digits_str_nat d lim)
  then have "int_of_digits (c # cs)
          = (if n < 10 ^ int_max_str_digits then Some n else None)"
    by (simp add: cs)
  then show ?thesis using ne s by (simp add: py_int_def cs)
qed

lemma py_int_str_int:
  "0 \<le> a \<Longrightarrow>
   py_int (str_nat (nat a)) = (if a < 10 ^ int_max_str_digits then Inr a else Inl ValueError)"
  by (simp add: py_int_str_nat nat_less_iff)

lemma split_on_nonempty: "split_on sep s \<noteq> []"
  by (induction s) (auto split: list.splits)

lemma split_on_no_sep: "sep \<notin> set a \<Longrightarrow> split_on sep a = [a]"
  by (induction a) (auto split: list.splits)

lemma split_on_append: "sep \<notin> set a \<Longrightarrow> split_on sep (a @ sep # rest) = a # split_on sep rest"
  by (induction a) (auto split: list.splits)

lemma lstrip_v_str_nat: "lstrip ''v'' (str_nat n @ rest) = str_nat n @ rest"
proof -
  obtain c cs where cs: "str_nat n = c # cs"
    using str_nat_nonempty[of n] by (cases "str_nat n") auto
  have "is_digit c" using str_nat_digits[of c n] cs by simp
  then have "c \<noteq> CHR ''v''" by (auto dest: is_digit_not_special)
  then show ?thesis using cs by (simp add: lstrip_def)
qed

lemma dot_notin_str_nat: "CHR ''.'' \<notin> set (str_nat n)"
  by (auto dest: str_nat_digits is_digit_not_special)

lemma parse_version_string_try_triple:
  assumes nn: "0 \<le> a" "0 \<le> b" "0 \<le> c"
  shows "parse_semantic_version_try (version_string (a, b, c))
           = (if a < 10 ^ int_max_str_digits \<and> b < 10 ^ int_max_str_digits
                 \<and> c < 10 ^ int_max_str_digits
              then Inr (Some (a, b, c)) else Inl ValueError)"
proof -
  define sa sb sc where "sa = str_nat (nat a)" and "sb = str_nat (nat b)" and "sc = str_nat (nat c)"
  have vs: "version_string (a, b, c) = sa @ CHR ''.'' # sb @ CHR ''.'' # sc"
    using nn by (simp add: version_string_def str_int_def sa_def sb_def sc_def)
  have l: "lstrip ''v'' (sa @ CHR ''.'' # sb @ CHR ''.'' # sc) = sa @ CHR ''.'' # sb @ CHR ''.'' # sc"
    unfolding sa_def by (rule lstrip_v_str_nat)
  have sp: "split_on CHR ''.'' (sa @ CHR ''.'' # sb @ CHR ''.'' # sc) = [sa, sb, sc]"
    by (simp add: split_on_append split_on_no_sep dot_notin_str_nat sa_def sb_def sc_def)
  have ints:
    "py_int sa = (if a < 10 ^ int_max_str_digits then Inr a else Inl ValueError)"
    "py_int sb = (if b < 10 ^ int_max_str_digits then Inr b else Inl ValueError)"
    "py_int sc = (if c < 10 ^ int_max_str_digits then Inr c else Inl ValueError)"
    using nn by (simp_all only: py_int_str_int sa_def sb_def sc_def)
  show ?thesis
    unfolding vs using nn by (simp add: parse_semantic_version_try_def l sp ints)
qed

lemma parse_version_string:
  assumes "valid_version v"
  shows "parse_semantic_version (version_string v)
           = (if within_digit_limit v then Inr (Some v) else Inr None)"
proof -
  obtain a b c where v: "v = (a, b, c)" by (cases v) auto
  with assms have nn: "0 \<le> a" "0 \<le> b" "0 \<le> c" by (simp_all add: valid_version_def)
  show ?thesis
    unfolding v
    by (simp add: parse_semantic_version_def parse_version_string_try_triple [OF nn]
          within_digit_limit_def is_ValueError_def)
qed

section \<open>Properties of the version comparator\<close>

lemma py_int_raises_ValueError: "py_int s = Inl e \<Longrightarrow> e = ValueError"
  by (auto simp: py_int_def split: list.splits if_splits option.splits)

lemma map_exn_raises:
  "map_exn f xs = Inl e \<Longrightarrow> \<exists>x \<in> set xs. f x = Inl e"
  by (induction xs) (auto split: sum.splits)

lemma parse_semantic_version_try_raises:
  "parse_semantic_version_try s = Inl e \<Longrightarrow> e = ValueError"
  by (auto simp: parse_semantic_version_try_def Let_def
           split: if_splits sum.splits list.splits
           dest!: map_exn_raises py_int_raises_ValueError)

lemma parse_semantic_version_never_raises: "\<exists>r. parse_semantic_version s = Inr r"
  by (cases "parse_semantic_version_try s")
     (auto simp: parse_semantic_version_def is_ValueError_def
           dest: parse_semantic_version_try_raises)

text \<open>
  C7. The claim: the parser strips one optional leading \<open>v\<close>, and any other deviation
  from three dot-separated non-negative integers is unparseable. The docstring gives the
  accepted formats as \<open>X.Y.Z\<close> and \<open>vX.Y.Z\<close>. The code calls \<open>lstrip("v")\<close>, which
  removes every leading \<open>v\<close>: the input \<open>vv1.2.3\<close> is parsed to \<open>(1, 2, 3)\<close> where the
  claim and the docstring make it unparseable.
\<close>

theorem parse_semantic_version_double_v:
  "parse_semantic_version ''vv1.2.3'' = Inr (Some (1, 2, 3))"
  by (simp add: parse_semantic_version_def parse_semantic_version_try_def lstrip_def
        py_int_def int_of_digits_def int_max_str_digits_def strip_with_def is_c_space_def
        is_digit_def digit_val_def)

text \<open>
  C8, as the claim states it: rendering any valid version and parsing the text gives the
  version back. \<open>int\<close> refuses a text of more than 4300 digits with \<open>ValueError\<close>, which the
  parser turns into unparseable: the version \<open>(10 ^ 4300, 0, 0)\<close>, whose first component has
  4301 digits, does not come back.
\<close>

theorem version_roundtrip_counterexample:
  "valid_version (10 ^ 4300, 0, 0)
   \<and> parse_semantic_version (version_string (10 ^ 4300, 0, 0)) = Inr None"
proof -
  have nn: "(0::int) \<le> 10 ^ 4300" by (rule zero_le_power) simp
  have v: "valid_version (10 ^ 4300, 0, 0)"
    unfolding valid_version_def prod.case using nn by (intro conjI order_refl)
  have "\<not> ((10::int) ^ 4300 < 10 ^ int_max_str_digits)"
    unfolding int_max_str_digits_def by (rule less_irrefl)
  then have "\<not> within_digit_limit (10 ^ 4300, 0, 0)"
    unfolding within_digit_limit_def prod.case by (rule contrapos_nn) (erule conjunct1)
  with parse_version_string [OF v]
  have "parse_semantic_version (version_string (10 ^ 4300, 0, 0)) = Inr None"
    by (simp only: if_False)
  with v show ?thesis by (rule conjI)
qed

text \<open>
  C8, amended. \<open>compare_versions\<close> is antisymmetric (\<open>compare(a, b) = - compare(b, a)\<close>),
  transitive, and agrees with the lexicographic order of the triples: it is \<open>-1\<close>
  exactly when \<open>a\<close> is below \<open>b\<close>, \<open>0\<close> exactly when they are equal, \<open>1\<close> exactly when
  \<open>b\<close> is below \<open>a\<close>. Rendering a version of non-negative components as
  \<open>major.minor.patch\<close> and parsing the text gives the version back when every component is
  below \<open>10 ^ 4300\<close>, that is, has at most 4300 digits; when a component has more, the
  text is unparseable.
\<close>

theorem compare_versions_total_order_and_roundtrip:
  "compare_versions a b = - compare_versions b a
   \<and> (compare_versions a b = - 1 \<and> compare_versions b c = - 1 \<longrightarrow> compare_versions a c = - 1)
   \<and> (compare_versions a b = - 1 \<longleftrightarrow> tuple_lt a b)
   \<and> (compare_versions a b = 0 \<longleftrightarrow> a = b)
   \<and> (compare_versions a b = 1 \<longleftrightarrow> tuple_lt b a)
   \<and> (valid_version v \<and> within_digit_limit v \<longrightarrow>
        parse_semantic_version (version_string v) = Inr (Some v))
   \<and> (valid_version v \<and> \<not> within_digit_limit v \<longrightarrow>
        parse_semantic_version (version_string v) = Inr None)"
proof -
  obtain a1 a2 a3 where a: "a = (a1, a2, a3)" by (cases a) auto
  obtain b1 b2 b3 where b: "b = (b1, b2, b3)" by (cases b) auto
  obtain c1 c2 c3 where c: "c = (c1, c2, c3)" by (cases c) auto
  have 1: "compare_versions a b = - compare_versions b a"
    unfolding a b by (auto simp: compare_versions_def tuple_lt_def)
  have 2: "compare_versions a b = - 1 \<and> compare_versions b c = - 1 \<longrightarrow> compare_versions a c = - 1"
    unfolding a b c by (auto simp: compare_versions_def tuple_lt_def split: if_splits)
  have 3: "compare_versions a b = - 1 \<longleftrightarrow> tuple_lt a b"
    by (simp add: compare_versions_def)
  have 4: "compare_versions a b = 0 \<longleftrightarrow> a = b"
    unfolding a b by (auto simp: compare_versions_def tuple_lt_def)
  have 5: "compare_versions a b = 1 \<longleftrightarrow> tuple_lt b a"
    unfolding a b by (auto simp: compare_versions_def tuple_lt_def)
  have 6: "valid_version v \<and> within_digit_limit v \<longrightarrow>
        parse_semantic_version (version_string v) = Inr (Some v)"
    by (simp add: parse_version_string)
  have 7: "valid_version v \<and> \<not> within_digit_limit v \<longrightarrow>
        parse_semantic_version (version_string v) = Inr None"
    by (simp add: parse_version_string)
  show ?thesis using 1 2 3 4 5 6 7 by blast
qed

theorem compare_versions_total_order_and_roundtrip_witness:
  "compare_versions (1, 2, 1) (1, 3, 0) = - 1 \<and> compare_versions (1, 3, 0) (2, 0, 0) = - 1
   \<and> compare_versions (1, 2, 1) (2, 0, 0) = - 1
   \<and> valid_version (1, 2, 1) \<and> within_digit_limit (1, 2, 1)
   \<and> parse_semantic_version (version_string (1, 2, 1)) = Inr (Some (1, 2, 1))"
proof -
  have h1: "compare_versions (1, 2, 1) (1, 3, 0) = - 1 \<and> compare_versions (1, 3, 0) (2, 0, 0) = - 1"
    by (simp add: compare_versions_def tuple_lt_def)
  have h2: "valid_version (1, 2, 1)" by (simp add: valid_version_def)
  have "(10::int) \<le> 10 ^ int_max_str_digits"
    by (rule self_le_power) (simp_all add: int_max_str_digits_pos)
  then have h3: "within_digit_limit (1, 2, 1)"
    by (simp add: within_digit_limit_def)
  show ?thesis
    using h1 h2 h3
      compare_versions_total_order_and_roundtrip [of "(1, 2, 1)" "(1, 3, 0)" "(2, 0, 0)" "(1, 2, 1)"]
    by blast
qed

section \<open>Properties of the checks\<close>




text \<open>
  C2. The claim and the comment of the example configuration (\<open>CRITICAL: Triggers when
  load >= (CPU_COUNT * multiplier)\<close>) put a per-CPU load equal to the critical multiplier in
  the CRITICAL tier. The code tests \<open>load_per_cpu > LOAD_CRITICAL_MULTIPLIER\<close>: load averages
  \<open>4.0 2.0 1.0\<close> on four CPUs, with the multipliers 0.7 (the double nearest to it) and 1.0,
  give a per-CPU load of exactly 1.0 and a HIGH issue. Every float operation at this input
  is exact.
\<close>

theorem check_load_average_at_critical_multiplier:
  "check_load_average whole_runtime
     (default_config\<lparr>LOAD_WARNING_MULTIPLIER := 3152519739159347 / 4503599627370496,
                     LOAD_CRITICAL_MULTIPLIER := 1\<rparr>)
     (Inr (''4.0 2.0 1.0 1/123 4567'' @ [CHR 0x0A])) (Some 4) []
   = Inr [\<lparr>severity = HIGH, category = ''System Health'',
            description = ''Load average high: 4.0 (1.00 per CPU)'',
            details = Some ''CPU count: 4, 1/5/15 min: 4.0/2.0/1.0'',
            timestamp = ''2025-01-01T00:00:00''\<rparr>]"
  by code_simp




section \<open>Properties of the SSH check\<close>











section \<open>Properties of the configuration resolver\<close>

lemma convert_to_boolean_cases:
  "convert_to_boolean v =
     (if lower v \<in> set [''1'', ''yes'', ''true'', ''on''] then Inr True
      else if lower v \<in> set [''0'', ''no'', ''false'', ''off''] then Inr False
      else Inl ValueError)"
  by (simp add: convert_to_boolean_def BOOLEAN_STATES_def)

lemma cfg_env_try_coerced:
  assumes "\<forall>s e. float_of_str R s = Inl e \<longrightarrow> is_ValueError e"
  shows "(case cfg_env_try R value_type v of
            Inr x \<Rightarrow> env_coerced R value_type v = Some x
          | Inl e \<Rightarrow> is_ValueError e \<and> env_coerced R value_type v = None)"
  using assms
  by (cases value_type)
     (auto simp: cfg_env_try_def env_coerced_def then_exn_def is_ValueError_def
           dest: py_int_raises_ValueError split: sum.splits)

lemma cfg_file_or_default_layer:
  assumes fl: "\<forall>s e. float_of_str R s = Inl e \<longrightarrow> is_ValueError e"
    and gt: "\<forall>cp e. config = Some cp \<longrightarrow> get cp section key = Inl e \<longrightarrow> e = ConfigparserError"
  shows "cfg_file_or_default R has_config config section key default_value value_type =
           Inr (case file_layer R has_config config section key value_type of
                  Some x \<Rightarrow> x | None \<Rightarrow> default_value)"
proof (cases config)
  case None
  then show ?thesis by (simp add: cfg_file_or_default_def file_layer_def)
next
  case (Some cp)
  show ?thesis
  proof (cases "has_config \<and> has_option cp section key")
    case False
    with Some show ?thesis by (auto simp: cfg_file_or_default_def file_layer_def)
  next
    case True
    show ?thesis
    proof (cases "get cp section key")
      case (Inl e)
      with gt Some have "e = ConfigparserError" by blast
      with Inl Some True show ?thesis
        by (cases value_type)
           (simp_all add: cfg_file_or_default_def file_layer_def cfg_file_try_def then_exn_def
              getboolean_def getint_def getfloat_def)
    next
      case (Inr v)
      with Some True fl show ?thesis
        by (cases value_type)
           (auto simp: cfg_file_or_default_def file_layer_def cfg_file_try_def then_exn_def
              getboolean_def getint_def getfloat_def file_coerced_def convert_to_boolean_cases
              is_ValueError_def
              dest: py_int_raises_ValueError split: sum.splits)
    qed
  qed
qed

lemma whole_float_of_str_raises:
  "float_of_str whole_runtime s = Inl e \<Longrightarrow> is_ValueError e"
  by (auto simp: whole_runtime_def whole_float_of_str_def then_exn_def is_ValueError_def
           dest: py_int_raises_ValueError split: list.splits if_splits sum.splits)

lemma sample_parser_get_raises:
  "get sample_parser section key = Inl e \<Longrightarrow> e = ConfigparserError"
  by (simp add: sample_parser_def split: option.splits)

text \<open>
  C6, as the claim states it: boolean coercion maps every text outside \<open>true, 1, yes, on\<close> to
  false. With no environment variable, a loaded file holding \<open>enabled = maybe\<close> in section
  \<open>version_check\<close> and the default \<open>True\<close> (the call that sets \<open>VERSION_CHECK_ENABLED\<close>), the
  resolver returns \<open>True\<close>: \<open>getboolean\<close> raises \<open>ValueError\<close> on \<open>maybe\<close> and the default is
  taken.
\<close>

theorem cfg_file_boolean_counterexample:
  "py_cfg whole_runtime no_environment True (Some example_parser)
     ''version_check'' ''enabled'' (VBool True) TBool = Inr (VBool True)
   \<and> lower ''maybe'' \<notin> set [''true'', ''1'', ''yes'', ''on'']"
  by code_simp

text \<open>
  C6, amended. When \<open>float\<close> raises nothing but \<open>ValueError\<close> and reading the option from the
  parser raises nothing but a \<open>configparser\<close> error, the resolver never raises and returns:
  the environment variable named by the uppercased key, coerced, when it is set and
  coercible; otherwise the file value under (section, key), coerced, when a file was loaded,
  has the option and the value is coercible; otherwise the default. An environment text
  always coerces to a boolean, true exactly for \<open>true, 1, yes, on\<close> in any case. A file text
  coerces to a boolean only if, in any case, it is one of \<open>1, yes, true, on\<close> (true) or
  \<open>0, no, false, off\<close> (false); any other file text is a coercion failure and falls through
  to the default.
\<close>

theorem cfg_resolution_order:
  assumes "\<forall>s e. float_of_str R s = Inl e \<longrightarrow> is_ValueError e"
    and "\<forall>cp e. config = Some cp \<longrightarrow> get cp section key = Inl e \<longrightarrow> e = ConfigparserError"
  shows "py_cfg R getenv has_config config section key default_value value_type
           = Inr (resolve R getenv has_config config section key default_value value_type)"
proof (cases "getenv (upper key)")
  case None
  then show ?thesis
    using cfg_file_or_default_layer [OF assms]
    by (simp add: py_cfg_def resolve_def env_layer_def)
next
  case (Some v)
  show ?thesis
  proof (cases "cfg_env_try R value_type v")
    case (Inr x)
    with cfg_env_try_coerced [OF assms(1), of value_type v]
    have "env_coerced R value_type v = Some x" by simp
    with Some Inr show ?thesis by (simp add: py_cfg_def resolve_def env_layer_def)
  next
    case (Inl e)
    with cfg_env_try_coerced [OF assms(1), of value_type v]
    have "is_ValueError e" and "env_coerced R value_type v = None" by simp_all
    with Some Inl show ?thesis
      using cfg_file_or_default_layer [OF assms]
      by (simp add: py_cfg_def resolve_def env_layer_def)
  qed
qed

theorem cfg_resolution_order_witness:
  "py_cfg whole_runtime sample_environment True (Some sample_parser)
       ''thresholds'' ''memory_warning'' (VInt 80) TInt = Inr (VInt 85)
   \<and> py_cfg whole_runtime sample_environment True (Some sample_parser)
       ''thresholds'' ''load_warning'' (VInt 200) TInt = Inr (VInt 150)
   \<and> py_cfg whole_runtime sample_environment True (Some sample_parser)
       ''version_check'' ''timeout'' (VFloat 5) TFloat = Inr (VFloat 2)
   \<and> py_cfg whole_runtime sample_environment True (Some sample_parser)
       ''version_check'' ''enabled'' (VBool True) TBool = Inr (VBool True)
   \<and> py_cfg whole_runtime sample_environment True (Some sample_parser)
       ''email'' ''subject'' (VStr ''Linux Health Check Report - {hostname}'') TStr
     = Inr (VStr ''Linux Health Check Report - {hostname}'')
   \<and> py_cfg whole_runtime sample_environment True (Some sample_parser)
       ''smtp'' ''use_tls'' (VBool False) TBool = Inr (VBool True)
   \<and> py_cfg whole_runtime sample_environment True (Some sample_parser)
       ''smtp'' ''port'' (VInt 25) TInt = Inr (VInt 25)
   \<and> float_of_str whole_runtime ''soon'' = Inl ValueError
   \<and> get sample_parser ''email'' ''subject'' = Inl ConfigparserError"
proof -
  have h1: "\<forall>s e. float_of_str whole_runtime s = Inl e \<longrightarrow> is_ValueError e"
    by (blast dest: whole_float_of_str_raises)
  have h2: "\<And>section key. \<forall>cp e. Some sample_parser = Some cp \<longrightarrow>
              get cp section key = Inl e \<longrightarrow> e = ConfigparserError"
    by (auto dest: sample_parser_get_raises)
  have r1: "resolve whole_runtime sample_environment True (Some sample_parser)
             ''thresholds'' ''memory_warning'' (VInt 80) TInt = VInt 85"
    by code_simp
  have r2: "resolve whole_runtime sample_environment True (Some sample_parser)
             ''thresholds'' ''load_warning'' (VInt 200) TInt = VInt 150"
    by code_simp
  have r3: "resolve whole_runtime sample_environment True (Some sample_parser)
             ''version_check'' ''timeout'' (VFloat 5) TFloat = VFloat 2"
    by code_simp
  have r4: "resolve whole_runtime sample_environment True (Some sample_parser)
             ''version_check'' ''enabled'' (VBool True) TBool = VBool True"
    by code_simp
  have r5: "resolve whole_runtime sample_environment True (Some sample_parser)
             ''email'' ''subject'' (VStr ''Linux Health Check Report - {hostname}'') TStr
             = VStr ''Linux Health Check Report - {hostname}''"
    by code_simp
  have r6: "resolve whole_runtime sample_environment True (Some sample_parser)
             ''smtp'' ''use_tls'' (VBool False) TBool = VBool True"
    by code_simp
  have r7: "resolve whole_runtime sample_environment True (Some sample_parser)
             ''smtp'' ''port'' (VInt 25) TInt = VInt 25"
    by code_simp
  have f: "float_of_str whole_runtime ''soon'' = Inl ValueError"
    by code_simp
  have g: "get sample_parser ''email'' ''subject'' = Inl ConfigparserError"
    by code_simp
  show ?thesis
    using
      cfg_resolution_order [of whole_runtime "Some sample_parser" "''thresholds''" "''memory_warning''"
        sample_environment True "VInt 80" TInt, OF h1 h2]
      cfg_resolution_order [of whole_runtime "Some sample_parser" "''thresholds''" "''load_warning''"
        sample_environment True "VInt 200" TInt, OF h1 h2]
      cfg_resolution_order [of whole_runtime "Some sample_parser" "''version_check''" "''timeout''"
        sample_environment True "VFloat 5" TFloat, OF h1 h2]
      cfg_resolution_order [of whole_runtime "Some sample_parser" "''version_check''" "''enabled''"
        sample_environment True "VBool True" TBool, OF h1 h2]
      cfg_resolution_order [of whole_runtime "Some sample_parser" "''email''" "''subject''"
        sample_environment True "VStr ''Linux Health Check Report - {hostname}''" TStr, OF h1 h2]
      cfg_resolution_order [of whole_runtime "Some sample_parser" "''smtp''" "''use_tls''"
        sample_environment True "VBool False" TBool, OF h1 h2]
      cfg_resolution_order [of whole_runtime "Some sample_parser" "''smtp''" "''port''"
        sample_environment True "VInt 25" TInt, OF h1 h2]
          r1 r2 r3 r4 r5 r6 r7 f g
    by simp
qed

section \<open>Properties of the exporters\<close>

lemma map_of_dict_set: "map_of (dict_set d k v) = (map_of d)(k \<mapsto> v)"
  by (induction d) (auto simp: fun_eq_iff)

lemma keys_dict_set:
  "map fst (dict_set d k v) = (if k \<in> fst ` set d then map fst d else map fst d @ [k])"
  by (induction d) auto

lemma distinct_dict_set: "distinct (map fst d) \<Longrightarrow> distinct (map fst (dict_set d k v))"
  by (simp add: keys_dict_set)

lemma map_of_count_issue:
  "map_of (count_issue d i) =
     (map_of d)(severity i \<mapsto> (case map_of d (severity i) of None \<Rightarrow> 0 | Some n \<Rightarrow> n) + 1)"
  by (simp add: count_issue_def Let_def map_of_dict_set dict_get_def)

lemma count_by_severity_Cons:
  "count_by_severity (i # issues) s =
     (if severity i = s then 1 else 0) + count_by_severity issues s"
  by (simp add: count_by_severity_def)

lemma map_of_foldl_count_issue:
  "map_of (foldl count_issue d issues) s =
     (case map_of d s of
        None \<Rightarrow> (if count_by_severity issues s = 0 then None
                 else Some (count_by_severity issues s))
      | Some n \<Rightarrow> Some (n + count_by_severity issues s))"
proof (induction issues arbitrary: d)
  case Nil
  show ?case by (simp add: count_by_severity_def split: option.splits)
next
  case (Cons i issues)
  show ?case
    by (simp add: Cons.IH map_of_count_issue count_by_severity_Cons split: option.splits)
qed

lemma distinct_foldl_count_issue:
  "distinct (map fst d) \<Longrightarrow> distinct (map fst (foldl count_issue d issues))"
  by (induction issues arbitrary: d) (simp_all add: count_issue_def Let_def distinct_dict_set)

lemma map_of_severity_counts:
  "map_of (severity_counts issues) s =
     (if count_by_severity issues s = 0 then None else Some (count_by_severity issues s))"
  by (simp add: severity_counts_def map_of_foldl_count_issue)

lemma distinct_severity_counts: "distinct (map fst (severity_counts issues))"
  by (simp add: severity_counts_def distinct_foldl_count_issue)

lemma dict_get_severity_counts:
  "dict_get (severity_counts issues) s 0 = count_by_severity issues s"
  by (simp add: dict_get_def map_of_severity_counts)

lemma severity_name_inj: "severity_name a = severity_name b \<longleftrightarrow> a = b"
  by (cases a; cases b; simp add: severity_name_def)

lemma map_of_json_summary:
  "map_of (map (\<lambda>(sev, n). (severity_name sev, JInt (int n))) counts) (severity_name s)
     = map_option (\<lambda>n. JInt (int n)) (map_of counts s)"
  by (induction counts) (auto simp: severity_name_inj)

lemma level_texts_summary:
  "distinct (map fst counts) \<Longrightarrow>
   level_texts
     (Element ''summary'' [] None
        (map (\<lambda>(sev, n). Element ''severity'' [(''level'', severity_name sev)] (Some (str_nat n)) [])
           counts))
     (severity_name s)
   = (case map_of counts s of None \<Rightarrow> [] | Some n \<Rightarrow> [Some (str_nat n)])"
proof (induction counts)
  case Nil
  show ?case by (simp add: level_texts_def children_def)
next
  case (Cons p counts)
  obtain sev n where p: "p = (sev, n)" by (cases p) auto
  from Cons.prems have d: "distinct (map fst counts)" and notin: "sev \<notin> fst ` set counts"
    by (simp_all add: p)
  from notin have none: "map_of counts sev = None"
    by (simp add: map_of_eq_None_iff)
  from Cons.IH [OF d] show ?case
    using none by (auto simp: level_texts_def children_def p severity_name_inj)
qed

lemma sum_count_by_severity:
  "sum_list (map (count_by_severity issues) all_severities) = length issues"
proof (induction issues)
  case Nil
  show ?case by (simp add: count_by_severity_def all_severities_def)
next
  case (Cons i issues)
  then show ?case
    by (cases "severity i") (simp_all add: count_by_severity_Cons all_severities_def)
qed

lemma markdown_summary_counts:
  "markdown_summary issues =
     ''## Summary'' @ NL @ NL
     @ concat (map (markdown_count_line issues) all_severities)
     @ NL @ ''**Total Issues:** '' @ str_nat (length issues) @ NL @ NL
     @ ''---'' @ NL @ NL"
  by (simp add: markdown_summary_def Let_def dict_get_severity_counts
        markdown_count_line_def [abs_def])

lemma text_summary_counts:
  "text_summary issues =
     concat (map (text_count_line issues) all_severities)
     @ NL @ ''Total Issues: '' @ str_nat (length issues) @ NL @ NL"
  by (simp add: text_summary_def Let_def dict_get_severity_counts
        text_count_line_def [abs_def])

text \<open>
  C9. For every store, every host name, \<open>OS_INFO\<close> and time text:
  the Markdown and text reports consist of their heading, then one line for each of the
  five severities, in the fixed order, showing the direct count of that severity, then the
  total \<open>len(issues)\<close>, then the issues; the five counts add up to that total;
  the JSON document has a \<open>summary\<close> object in which a severity has a member exactly when
  its direct count is not zero, with that count as value, and an \<open>issues\<close> array with one
  entry for each issue of the store, in order;
  the XML tree has one \<open>summary\<close> child in which a level has a \<open>severity\<close> element exactly
  when its direct count is not zero, with that count as text, and one \<open>issues\<close> child with
  one \<open>issue\<close> element for each issue of the store, in order.
  On the empty store the JSON summary is the empty object and the issues array is empty,
  and every summary line of the Markdown and text reports shows \<open>0\<close>.
\<close>

theorem exporters_agree_on_counts:
  "export_markdown HOSTNAME OS_INFO date issues =
       markdown_heading HOSTNAME OS_INFO date
       @ ''## Summary'' @ NL @ NL
       @ concat (map (markdown_count_line issues) all_severities)
       @ NL @ ''**Total Issues:** '' @ str_nat (length issues) @ NL @ NL
       @ ''---'' @ NL @ NL
       @ markdown_issues issues
   \<and> export_text HOSTNAME OS_INFO date issues =
       text_heading HOSTNAME OS_INFO date
       @ concat (map (text_count_line issues) all_severities)
       @ NL @ ''Total Issues: '' @ str_nat (length issues) @ NL @ NL
       @ text_issues issues
   \<and> sum_list (map (count_by_severity issues) all_severities) = length issues
   \<and> json_member (export_json HOSTNAME OS_INFO stamp issues) ''issues''
       = Some (JArray (map json_of_issue issues))
   \<and> (\<exists>summary.
         json_member (export_json HOSTNAME OS_INFO stamp issues) ''summary''
           = Some (JObject summary)
         \<and> distinct (map fst summary)
         \<and> length summary = length (filter (\<lambda>s. count_by_severity issues s \<noteq> 0) all_severities)
         \<and> map_of summary (severity_name sev)
             = (if count_by_severity issues sev = 0 then None
                else Some (JInt (int (count_by_severity issues sev)))))
   \<and> find_all (export_xml HOSTNAME OS_INFO stamp issues) ''issues''
       = [Element ''issues'' [] None (map xml_of_issue issues)]
   \<and> find_all (export_xml HOSTNAME OS_INFO stamp issues) ''summary'' = [xml_summary issues]
   \<and> level_texts (xml_summary issues) (severity_name sev)
       = (if count_by_severity issues sev = 0 then []
          else [Some (str_nat (count_by_severity issues sev))])
   \<and> json_member (export_json HOSTNAME OS_INFO stamp []) ''summary'' = Some (JObject [])
   \<and> json_member (export_json HOSTNAME OS_INFO stamp []) ''issues'' = Some (JArray [])
   \<and> map (markdown_count_line []) all_severities
       = [''- **CRITICAL:** 0'' @ NL, ''- **HIGH:** 0'' @ NL, ''- **MEDIUM:** 0'' @ NL,
          ''- **LOW:** 0'' @ NL, ''- **INFO:** 0'' @ NL]
   \<and> map (text_count_line []) all_severities
       = [''CRITICAL     0'' @ NL, ''HIGH         0'' @ NL, ''MEDIUM       0'' @ NL,
          ''LOW          0'' @ NL, ''INFO         0'' @ NL]"
proof -
  let ?counts = "severity_counts issues"
  let ?summary = "map (\<lambda>(sev, n). (severity_name sev, JInt (int n))) ?counts"
  have md: "export_markdown HOSTNAME OS_INFO date issues =
       markdown_heading HOSTNAME OS_INFO date
       @ ''## Summary'' @ NL @ NL
       @ concat (map (markdown_count_line issues) all_severities)
       @ NL @ ''**Total Issues:** '' @ str_nat (length issues) @ NL @ NL
       @ ''---'' @ NL @ NL
       @ markdown_issues issues"
    by (simp add: export_markdown_def markdown_summary_counts)
  have tx: "export_text HOSTNAME OS_INFO date issues =
       text_heading HOSTNAME OS_INFO date
       @ concat (map (text_count_line issues) all_severities)
       @ NL @ ''Total Issues: '' @ str_nat (length issues) @ NL @ NL
       @ text_issues issues"
    by (simp add: export_text_def text_summary_counts)
  have ji: "json_member (export_json HOSTNAME OS_INFO stamp issues) ''issues''
       = Some (JArray (map json_of_issue issues))"
    by (simp add: json_member_def export_json_def)
  have js: "json_member (export_json HOSTNAME OS_INFO stamp issues) ''summary''
       = Some (JObject ?summary)"
    by (simp add: json_member_def export_json_def)
  have keys: "map fst ?summary = map severity_name (map fst ?counts)"
    by (simp add: case_prod_beta comp_def)
  have dist: "distinct (map fst ?summary)"
  proof -
    have "inj_on severity_name (set (map fst ?counts))"
      by (simp add: inj_on_def severity_name_inj)
    with distinct_severity_counts [of issues]
    have "distinct (map severity_name (map fst ?counts))"
      using distinct_map [of severity_name "map fst ?counts"] by blast
    then show ?thesis by (simp only: keys)
  qed
  have "set (map fst ?counts) = dom (map_of ?counts)"
    by (simp add: dom_map_of_conv_image_fst)
  also have "\<dots> = {s. count_by_severity issues s \<noteq> 0}"
    by (auto simp: dom_def map_of_severity_counts)
  finally have "set (map fst ?counts) = {s. count_by_severity issues s \<noteq> 0}" .
  moreover have "set (filter (\<lambda>s. count_by_severity issues s \<noteq> 0) all_severities)
                   = {s. count_by_severity issues s \<noteq> 0}"
  proof -
    have "\<And>s. s \<in> set all_severities"
    proof -
      fix s show "s \<in> set all_severities" by (cases s) (simp_all add: all_severities_def)
    qed
    then show ?thesis by auto
  qed
  moreover have "distinct (filter (\<lambda>s. count_by_severity issues s \<noteq> 0) all_severities)"
    by (simp add: all_severities_def)
  ultimately have "length (map fst ?counts)
                     = length (filter (\<lambda>s. count_by_severity issues s \<noteq> 0) all_severities)"
    using distinct_severity_counts [of issues]
    by (metis distinct_card)
  then have len: "length ?summary
                    = length (filter (\<lambda>s. count_by_severity issues s \<noteq> 0) all_severities)"
    by simp
  have look: "map_of ?summary (severity_name sev)
             = (if count_by_severity issues sev = 0 then None
                else Some (JInt (int (count_by_severity issues sev))))"
    by (simp add: map_of_json_summary map_of_severity_counts)
  have jsum: "\<exists>summary.
         json_member (export_json HOSTNAME OS_INFO stamp issues) ''summary''
           = Some (JObject summary)
         \<and> distinct (map fst summary)
         \<and> length summary = length (filter (\<lambda>s. count_by_severity issues s \<noteq> 0) all_severities)
         \<and> map_of summary (severity_name sev)
             = (if count_by_severity issues sev = 0 then None
                else Some (JInt (int (count_by_severity issues sev))))"
    using js dist len look by blast
  have xi: "find_all (export_xml HOSTNAME OS_INFO stamp issues) ''issues''
       = [Element ''issues'' [] None (map xml_of_issue issues)]"
    by (simp add: find_all_def export_xml_def children_def tag_of_def xml_summary_def)
  have xs: "find_all (export_xml HOSTNAME OS_INFO stamp issues) ''summary'' = [xml_summary issues]"
    by (simp add: find_all_def export_xml_def children_def tag_of_def xml_summary_def)
  have xl: "level_texts (xml_summary issues) (severity_name sev)
       = (if count_by_severity issues sev = 0 then []
          else [Some (str_nat (count_by_severity issues sev))])"
    unfolding xml_summary_def
    by (simp add: level_texts_summary [OF distinct_severity_counts] map_of_severity_counts)
  have e1: "json_member (export_json HOSTNAME OS_INFO stamp []) ''summary'' = Some (JObject [])"
    by (simp add: json_member_def export_json_def severity_counts_def)
  have e2: "json_member (export_json HOSTNAME OS_INFO stamp []) ''issues'' = Some (JArray [])"
    by (simp add: json_member_def export_json_def)
  have e3: "map (markdown_count_line []) all_severities
       = [''- **CRITICAL:** 0'' @ NL, ''- **HIGH:** 0'' @ NL, ''- **MEDIUM:** 0'' @ NL,
          ''- **LOW:** 0'' @ NL, ''- **INFO:** 0'' @ NL]"
    by code_simp
  have e4: "map (text_count_line []) all_severities
       = [''CRITICAL     0'' @ NL, ''HIGH         0'' @ NL, ''MEDIUM       0'' @ NL,
          ''LOW          0'' @ NL, ''INFO         0'' @ NL]"
    by code_simp
  show ?thesis
    using md tx sum_count_by_severity [of issues] ji jsum xi xs xl e1 e2 e3 e4 by blast
qed

section \<open>Properties of the encryption step\<close>

lemma gpg_path_differs: "file_path @ ''.gpg'' \<noteq> file_path"
proof
  assume "file_path @ ''.gpg'' = file_path"
  then have "length (file_path @ ''.gpg'') = length file_path" by simp
  then show False by simp
qed

text \<open>
  C10. With encryption enabled, a recipient set and the plaintext report present: when
  \<open>gpg\<close> is found and its run returns 0, the function removes the plaintext, keeps what
  \<open>gpg\<close> wrote and returns the path with \<open>.gpg\<close> appended; when \<open>gpg\<close> is not found the files
  are unchanged and the original path is returned; when the run fails the plaintext is as
  it was and the original path is returned. The result never depends on
  \<open>GPG_DELETE_UNENCRYPTED\<close>.
\<close>

theorem encrypt_file_gpg_outcomes:
  assumes "GPG_ENABLED cfg" and "GPG_RECIPIENT cfg \<noteq> []" and "file_path \<in> dom fs"
  shows
    "(command_exists which \<and> rc = 0 \<longrightarrow>
        encrypt_file_gpg cfg which ((rc, out, err), written) fs file_path
          = Inr (file_path @ ''.gpg'',
                 (case written of None \<Rightarrow> fs | Some c \<Rightarrow> fs(file_path @ ''.gpg'' \<mapsto> c))
                   (file_path := None)))
     \<and> (\<not> command_exists which \<longrightarrow>
        encrypt_file_gpg cfg which ((rc, out, err), written) fs file_path = Inr (file_path, fs))
     \<and> (command_exists which \<and> rc \<noteq> 0 \<longrightarrow>
        (\<exists>fs'. encrypt_file_gpg cfg which ((rc, out, err), written) fs file_path
                 = Inr (file_path, fs')
               \<and> fs' file_path = fs file_path))
     \<and> encrypt_file_gpg (cfg\<lparr>GPG_DELETE_UNENCRYPTED := b\<rparr>) which ((rc, out, err), written) fs
          file_path
        = encrypt_file_gpg cfg which ((rc, out, err), written) fs file_path"
proof -
  have present: "file_path \<in> dom (case written of None \<Rightarrow> fs
                                   | Some c \<Rightarrow> fs(file_path @ ''.gpg'' \<mapsto> c))"
    using assms(3) by (cases written) auto
  have 1: "command_exists which \<and> rc = 0 \<longrightarrow>
        encrypt_file_gpg cfg which ((rc, out, err), written) fs file_path
          = Inr (file_path @ ''.gpg'',
                 (case written of None \<Rightarrow> fs | Some c \<Rightarrow> fs(file_path @ ''.gpg'' \<mapsto> c))
                   (file_path := None))"
    using assms(1,2) present
    by (simp add: encrypt_file_gpg_def Let_def os_remove_def then_exn_def)
  have 2: "\<not> command_exists which \<longrightarrow>
        encrypt_file_gpg cfg which ((rc, out, err), written) fs file_path = Inr (file_path, fs)"
    using assms(1,2) by (simp add: encrypt_file_gpg_def)
  have 3: "command_exists which \<and> rc \<noteq> 0 \<longrightarrow>
        (\<exists>fs'. encrypt_file_gpg cfg which ((rc, out, err), written) fs file_path
                 = Inr (file_path, fs')
               \<and> fs' file_path = fs file_path)"
    using assms(1,2) gpg_path_differs [of file_path]
    by (cases written) (auto simp: encrypt_file_gpg_def Let_def)
  have 4: "encrypt_file_gpg (cfg\<lparr>GPG_DELETE_UNENCRYPTED := b\<rparr>) which ((rc, out, err), written) fs
          file_path
        = encrypt_file_gpg cfg which ((rc, out, err), written) fs file_path"
    by (simp add: encrypt_file_gpg_def)
  show ?thesis using 1 2 3 4 by blast
qed

theorem encrypt_file_gpg_outcomes_witness:
  "GPG_ENABLED (default_config\<lparr>GPG_ENABLED := True\<rparr>)
   \<and> GPG_RECIPIENT (default_config\<lparr>GPG_ENABLED := True\<rparr>) \<noteq> []
   \<and> ''/tmp/health_report_host1.md'' \<in> dom (no_files(''/tmp/health_report_host1.md'' \<mapsto> ''report''))
   \<and> command_exists (0, ''/usr/bin/gpg'', [])
   \<and> encrypt_file_gpg (default_config\<lparr>GPG_ENABLED := True\<rparr>) (0, ''/usr/bin/gpg'', [])
        ((0, [], []), Some ''ciphertext'') (no_files(''/tmp/health_report_host1.md'' \<mapsto> ''report''))
        ''/tmp/health_report_host1.md''
      = Inr (''/tmp/health_report_host1.md'' @ ''.gpg'',
             (case Some ''ciphertext'' of
                None \<Rightarrow> (no_files(''/tmp/health_report_host1.md'' \<mapsto> ''report''))
              | Some c \<Rightarrow> (no_files(''/tmp/health_report_host1.md'' \<mapsto> ''report''))
                             (''/tmp/health_report_host1.md'' @ ''.gpg'' \<mapsto> c))
               (''/tmp/health_report_host1.md'' := None))"
proof -
  have h1: "GPG_ENABLED (default_config\<lparr>GPG_ENABLED := True\<rparr>)" by simp
  have h2: "GPG_RECIPIENT (default_config\<lparr>GPG_ENABLED := True\<rparr>) \<noteq> []"
    by (simp add: default_config_def)
  have h3: "''/tmp/health_report_host1.md'' \<in> dom (no_files(''/tmp/health_report_host1.md'' \<mapsto> ''report''))"
    by simp
  have h4: "command_exists (0, ''/usr/bin/gpg'', [])" by (simp add: command_exists_def)
  from encrypt_file_gpg_outcomes [OF h1 h2 h3, of "(0, ''/usr/bin/gpg'', [])" 0 "[]" "[]"
         "Some ''ciphertext''" False] h4
  have "encrypt_file_gpg (default_config\<lparr>GPG_ENABLED := True\<rparr>) (0, ''/usr/bin/gpg'', [])
        ((0, [], []), Some ''ciphertext'') (no_files(''/tmp/health_report_host1.md'' \<mapsto> ''report''))
        ''/tmp/health_report_host1.md''
      = Inr (''/tmp/health_report_host1.md'' @ ''.gpg'',
             (case Some ''ciphertext'' of
                None \<Rightarrow> (no_files(''/tmp/health_report_host1.md'' \<mapsto> ''report''))
              | Some c \<Rightarrow> (no_files(''/tmp/health_report_host1.md'' \<mapsto> ''report''))
                             (''/tmp/health_report_host1.md'' @ ''.gpg'' \<mapsto> c))
               (''/tmp/health_report_host1.md'' := None))"
    by blast
  then show ?thesis using h1 h2 h3 h4 by blast
qed

section \<open>Properties of the runner\<close>







end
